theory Spec2Isabelle
  imports Main
begin

section \<open>The cluster operator of pkg/operator/cluster/operator.go\<close>

text \<open>
  The operator turns a MySQLCluster custom resource into two Services and one
  StatefulSet through the Kubernetes clients it holds. Every client call is a remote
  call whose answer the operator cannot predict, so the clients are parameters of the
  model: each operation of a client is a function of the history of the calls made so
  far and of the call's arguments. The history is the state the operator threads through
  its steps: a list of events, each a call with the error it returned. Logging has no
  effect on that state and is left out.
\<close>

subsection \<open>Errors\<close>

text \<open>
  A Go \<open>error\<close> is an interface value; \<open>nil\<close> is \<open>None\<close>. The operator tells three
  kinds of error apart: the API status errors of k8s.io/apimachinery (which carry a
  reason), any other error, and the aggregate built by \<open>errors.NewAggregate\<close>.
\<close>

datatype StatusReason =
    StatusReasonUnknown
  | StatusReasonAlreadyExists
  | StatusReasonNotFound
  | StatusReasonConflict

datatype error =
    StatusError StatusReason string
  | PlainError string
  | Aggregate "error list"

text \<open>\<open>apierrors.IsAlreadyExists\<close>: the reason of a status error; false on \<open>nil\<close>.\<close>

fun IsAlreadyExists :: "error option \<Rightarrow> bool" where
  "IsAlreadyExists (Some (StatusError r m)) = (r = StatusReasonAlreadyExists)"
| "IsAlreadyExists e = False"

fun IsNotFound :: "error option \<Rightarrow> bool" where
  "IsNotFound (Some (StatusError r m)) = (r = StatusReasonNotFound)"
| "IsNotFound e = False"

text \<open>
  Modelled from the spec: \<open>errors.NewAggregate\<close> of k8s.io/apimachinery/pkg/util/errors
  is not under src/. The spec describes it as a composite holding the ordered list
  of the causes that occurred: the \<open>nil\<close> entries of the slice are skipped, and a slice
  with no error left gives \<open>nil\<close>.
\<close>

fun nonNil :: "error option list \<Rightarrow> error list" where
  "nonNil [] = []"
| "nonNil (None # es) = nonNil es"
| "nonNil (Some e # es) = e # nonNil es"

definition NewAggregate :: "error option list \<Rightarrow> error option" where
  "NewAggregate errlist =
     (case nonNil errlist of [] \<Rightarrow> None | e # es \<Rightarrow> Some (Aggregate (e # es)))"

text \<open>
  The causes of an error are the errors at the leaves of its aggregates, left to right;
  \<open>nil\<close> has none.
\<close>

fun causes :: "error \<Rightarrow> error list" where
  "causes (Aggregate es) = concat (map causes es)"
| "causes (StatusError r m) = [StatusError r m]"
| "causes (PlainError m) = [PlainError m]"

fun causesOf :: "error option \<Rightarrow> error list" where
  "causesOf None = []"
| "causesOf (Some e) = causes e"

subsection \<open>Objects\<close>

record ObjectMeta =
  Name :: string
  Namespace :: string
  ResourceVersion :: string

record MySQLClusterSpec =
  Storage :: "string option"
  FromBackup :: string

record MySQLClusterStatus =
  State :: string
  Message :: string

record MySQLCluster =
  ObjectMeta :: ObjectMeta
  Spec :: MySQLClusterSpec
  Status :: MySQLClusterStatus

record MySQLBackupInstance =
  backupMeta :: ObjectMeta

text \<open>
  A Service and a StatefulSet are what the templates render; the operator reads and
  writes only their metadata, so the rest of each object is one opaque field.
\<close>

record Service =
  serviceMeta :: ObjectMeta
  serviceSpec :: string

record StatefulSet =
  statefulSetMeta :: ObjectMeta
  statefulSetSpec :: string

subsection \<open>Calls, events and clients\<close>

text \<open>Each call names the namespace of the interface it goes through.\<close>

datatype call =
    ServicesCreate string Service
  | ServicesGet string string
  | ServicesUpdate string Service
  | ServicesDelete string string
  | StatefulSetsCreate string StatefulSet
  | StatefulSetsUpdate string StatefulSet
  | StatefulSetsDelete string string
  | MySQLBackupInstancesGet string string
  | MySQLClustersUpdate string MySQLCluster

type_synonym event = "call \<times> error option"

type_synonym trace = "event list"

text \<open>
  \<open>kubernetes.Interface\<close>, as far as the operator uses it. A \<open>Get\<close> returns a pointer
  and an error; the pointer may be \<open>nil\<close> (the fake clientset of client-go returns
  \<open>nil\<close> with every error).
\<close>

record kube =
  Services_Create :: "trace \<Rightarrow> string \<Rightarrow> Service \<Rightarrow> error option"
  Services_Get :: "trace \<Rightarrow> string \<Rightarrow> string \<Rightarrow> Service option \<times> error option"
  Services_Update :: "trace \<Rightarrow> string \<Rightarrow> Service \<Rightarrow> error option"
  Services_Delete :: "trace \<Rightarrow> string \<Rightarrow> string \<Rightarrow> error option"
  StatefulSets_Create :: "trace \<Rightarrow> string \<Rightarrow> StatefulSet \<Rightarrow> error option"
  StatefulSets_Update :: "trace \<Rightarrow> string \<Rightarrow> StatefulSet \<Rightarrow> error option"
  StatefulSets_Delete :: "trace \<Rightarrow> string \<Rightarrow> string \<Rightarrow> error option"

text \<open>\<open>versioned.Interface\<close>, the client of the operator's own resources.\<close>

record versioned =
  MySQLBackupInstances_Get ::
    "trace \<Rightarrow> string \<Rightarrow> string \<Rightarrow> MySQLBackupInstance option \<times> error option"
  MySQLClusters_Update :: "trace \<Rightarrow> string \<Rightarrow> MySQLCluster \<Rightarrow> error option"

record clusterOperator =
  clientset :: versioned
  kubeClientset :: kube

text \<open>
  Modelled from the spec: \<open>WithDefaults\<close> (pkg/apis/cr/v1) and \<open>util.ObjectFromTemplate\<close>
  (pkg/util) are not under src/. The spec has defaulting fill the unset optional
  fields of the resource's spec, pure and deterministic, and has rendering a pure
  function of the resource and the template that gives an object or fails. Both are
  parameters: \<open>defaults\<close> maps a spec to the defaulted spec; \<open>renderService\<close> and
  \<open>renderStatefulSet\<close> give the object that \<open>ObjectFromTemplate\<close> filled in and its error.
\<close>

record pkg =
  defaults :: "MySQLClusterSpec \<Rightarrow> MySQLClusterSpec"
  renderService :: "MySQLCluster \<Rightarrow> string \<Rightarrow> Service \<times> error option"
  renderStatefulSet ::
    "MySQLCluster \<Rightarrow> MySQLBackupInstance option \<Rightarrow> string \<Rightarrow> StatefulSet \<times> error option"

definition WithDefaults :: "pkg \<Rightarrow> MySQLCluster \<Rightarrow> MySQLCluster" where
  "WithDefaults u cluster = cluster\<lparr>Spec := defaults u (Spec cluster)\<rparr>"

text \<open>
  Modelled from the spec: \<open>ServiceName\<close>, \<open>ReadServiceName\<close> and \<open>StatefulSetName\<close>
  (pkg/operator/cluster) are not under src/. The spec's naming contract: the read-write
  endpoint and the workload carry the cluster's name, the read-only endpoint the name
  followed by \<open>-read\<close>.
\<close>

definition ServiceName :: "string \<Rightarrow> string" where
  "ServiceName clusterName = clusterName"

definition ReadServiceName :: "string \<Rightarrow> string" where
  "ReadServiceName clusterName = clusterName @ ''-read''"

definition StatefulSetName :: "string \<Rightarrow> string" where
  "StatefulSetName clusterName = clusterName"

subsection \<open>The operator\<close>

definition serviceTemplate :: string where
  "serviceTemplate = ''artifacts/cluster-service.yaml''"

definition serviceReadTemplate :: string where
  "serviceReadTemplate = ''artifacts/cluster-service-read.yaml''"

definition statefulSetTemplate :: string where
  "statefulSetTemplate = ''artifacts/cluster-statefulset.yaml''"

text \<open>
  A Go function that dereferences a \<open>nil\<close> pointer does not return: it panics. The
  functions that can do so give an outcome.
\<close>

datatype 'a outcome = Panic string | Return 'a

definition serviceForCluster :: "pkg \<Rightarrow> MySQLCluster \<Rightarrow> string \<Rightarrow> Service \<times> error option" where
  "serviceForCluster u cluster filename = renderService u cluster filename"

definition statefulSetForCluster ::
  "pkg \<Rightarrow> MySQLCluster \<Rightarrow> MySQLBackupInstance option \<Rightarrow> StatefulSet \<times> error option" where
  "statefulSetForCluster u cluster backup =
     renderStatefulSet u cluster backup statefulSetTemplate"

definition createService ::
  "pkg \<Rightarrow> clusterOperator \<Rightarrow> MySQLCluster \<Rightarrow> string \<Rightarrow> trace \<Rightarrow> error option \<times> trace" where
  "createService u c cluster filename t =
     (let ns = Namespace (ObjectMeta cluster);
          (service, err) = serviceForCluster u cluster filename
      in if err \<noteq> None then (err, t)
         else
           let err = Services_Create (kubeClientset c) t ns service;
               t = t @ [(ServicesCreate ns service, err)]
           in if err \<noteq> None \<and> \<not> IsAlreadyExists err then (err, t)
              else (None, t))"

definition createStatefulSet ::
  "pkg \<Rightarrow> clusterOperator \<Rightarrow> MySQLCluster \<Rightarrow> trace \<Rightarrow> error option \<times> trace" where
  "createStatefulSet u c cluster t =
     (let ns = Namespace (ObjectMeta cluster);
          (backup, err, t) =
            (if FromBackup (Spec cluster) \<noteq> ''''
             then
               let (backup, err) =
                     MySQLBackupInstances_Get (clientset c) t ns (FromBackup (Spec cluster))
               in (backup, err,
                   t @ [(MySQLBackupInstancesGet ns (FromBackup (Spec cluster)), err)])
             else (None, None, t))
      in if err \<noteq> None then (err, t)
         else
           let (statefulSet, err) = statefulSetForCluster u cluster backup
           in if err \<noteq> None then (err, t)
              else
                let err = StatefulSets_Create (kubeClientset c) t ns statefulSet;
                    t = t @ [(StatefulSetsCreate ns statefulSet, err)]
                in if err \<noteq> None \<and> \<not> IsAlreadyExists err then (err, t)
                   else (None, t))"

definition removeService ::
  "clusterOperator \<Rightarrow> MySQLCluster \<Rightarrow> trace \<Rightarrow> error option \<times> trace" where
  "removeService c cluster t =
     (let ns = Namespace (ObjectMeta cluster);
          name = ServiceName (Name (ObjectMeta cluster));
          err = Services_Delete (kubeClientset c) t ns name
      in (err, t @ [(ServicesDelete ns name, err)]))"

definition removeReadService ::
  "clusterOperator \<Rightarrow> MySQLCluster \<Rightarrow> trace \<Rightarrow> error option \<times> trace" where
  "removeReadService c cluster t =
     (let ns = Namespace (ObjectMeta cluster);
          name = ReadServiceName (Name (ObjectMeta cluster));
          err = Services_Delete (kubeClientset c) t ns name
      in (err, t @ [(ServicesDelete ns name, err)]))"

definition removeStatefulSet ::
  "clusterOperator \<Rightarrow> MySQLCluster \<Rightarrow> trace \<Rightarrow> error option \<times> trace" where
  "removeStatefulSet c cluster t =
     (let ns = Namespace (ObjectMeta cluster);
          name = StatefulSetName (Name (ObjectMeta cluster));
          err = StatefulSets_Delete (kubeClientset c) t ns name
      in (err, t @ [(StatefulSetsDelete ns name, err)]))"

text \<open>
  The resource is passed by pointer: \<open>WithDefaults\<close> and \<open>setClusterState\<close> change it in
  place, so \<open>AddCluster\<close>, \<open>UpdateCluster\<close> and \<open>setClusterState\<close> return the resource as
  they leave it, between the result and the trace.
\<close>

definition AddCluster ::
  "pkg \<Rightarrow> clusterOperator \<Rightarrow> MySQLCluster \<Rightarrow> trace
     \<Rightarrow> error option \<times> MySQLCluster \<times> trace" where
  "AddCluster u c cluster0 t0 =
     (let cluster = WithDefaults u cluster0;
          (err, t) = createService u c cluster serviceTemplate t0
      in if err \<noteq> None then (err, cluster, t)
         else
           let (err, t) = createService u c cluster serviceReadTemplate t
           in if err \<noteq> None
              then
                let (removeErr, t) = removeService c cluster t
                in (NewAggregate [err, removeErr], cluster, t)
              else
                let (err, t) = createStatefulSet u c cluster t
                in if err \<noteq> None
                   then
                     let (removeErr, t) = removeService c cluster t;
                         err = NewAggregate [err, removeErr];
                         (removeErr, t) = removeReadService c cluster t
                     in (NewAggregate [err, removeErr], cluster, t)
                   else (None, cluster, t))"

definition setClusterState ::
  "clusterOperator \<Rightarrow> MySQLCluster \<Rightarrow> string \<Rightarrow> string \<Rightarrow> trace
     \<Rightarrow> error option \<times> MySQLCluster \<times> trace" where
  "setClusterState c cluster0 state message t =
     (let cluster = cluster0\<lparr>Status := (Status cluster0)\<lparr>State := state\<rparr>\<rparr>;
          cluster = cluster\<lparr>Status := (Status cluster)\<lparr>Message := message\<rparr>\<rparr>;
          ns = Namespace (ObjectMeta cluster);
          updateErr = MySQLClusters_Update (clientset c) t ns cluster
      in (updateErr, cluster, t @ [(MySQLClustersUpdate ns cluster, updateErr)]))"

text \<open>
  \<open>updateService\<close> reads the field \<open>ResourceVersion\<close> through the pointer that \<open>Get\<close>
  returned without looking at the error of \<open>Get\<close>: on a \<open>nil\<close> pointer this is a
  \<open>nil\<close> dereference. The service interface is the client with its namespace.
\<close>

definition updateService ::
  "pkg \<Rightarrow> MySQLCluster \<Rightarrow> kube \<times> string \<Rightarrow> string \<Rightarrow> trace
     \<Rightarrow> error option outcome \<times> trace" where
  "updateService u cluster serviceInterface template t =
     (let (k, ns) = serviceInterface;
          (service, err) = serviceForCluster u cluster template
      in if err \<noteq> None then (Return err, t)
         else
           let (oldService, err) = Services_Get k t ns (Name (serviceMeta service));
               t = t @ [(ServicesGet ns (Name (serviceMeta service)), err)]
           in case oldService of
                None \<Rightarrow> (Panic ''invalid memory address or nil pointer dereference'', t)
              | Some old \<Rightarrow>
                  let service = service\<lparr>serviceMeta :=
                        (serviceMeta service)\<lparr>ResourceVersion :=
                           ResourceVersion (serviceMeta old)\<rparr>\<rparr>;
                      err = Services_Update k t ns service
                  in (Return err, t @ [(ServicesUpdate ns service, err)]))"

definition updateServices ::
  "pkg \<Rightarrow> clusterOperator \<Rightarrow> MySQLCluster \<Rightarrow> trace \<Rightarrow> error option outcome \<times> trace" where
  "updateServices u c cluster t =
     (let serviceInterface = (kubeClientset c, Namespace (ObjectMeta cluster))
      in case updateService u cluster serviceInterface serviceTemplate t of
           (Panic m, t) \<Rightarrow> (Panic m, t)
         | (Return err, t) \<Rightarrow>
             if err \<noteq> None then (Return err, t)
             else updateService u cluster serviceInterface serviceReadTemplate t)"

definition updateStatefulSet ::
  "pkg \<Rightarrow> clusterOperator \<Rightarrow> MySQLCluster \<Rightarrow> trace \<Rightarrow> error option \<times> trace" where
  "updateStatefulSet u c cluster t =
     (let ns = Namespace (ObjectMeta cluster);
          (statefulSet, err) = statefulSetForCluster u cluster None
      in if err \<noteq> None then (err, t)
         else
           let err = StatefulSets_Update (kubeClientset c) t ns statefulSet
           in (err, t @ [(StatefulSetsUpdate ns statefulSet, err)]))"

definition UpdateCluster ::
  "pkg \<Rightarrow> clusterOperator \<Rightarrow> MySQLCluster \<Rightarrow> trace
     \<Rightarrow> error option outcome \<times> MySQLCluster \<times> trace" where
  "UpdateCluster u c newCluster0 t0 =
     (let newCluster = WithDefaults u newCluster0
      in case updateServices u c newCluster t0 of
           (Panic m, t) \<Rightarrow> (Panic m, newCluster, t)
         | (Return err, t) \<Rightarrow>
             if err \<noteq> None
             then
               let (setStateErr, newCluster, t) =
                     setClusterState c newCluster ''Failed update''
                       ''The provided patch resulted in a Service update failure'' t
               in (Return (NewAggregate [err, setStateErr]), newCluster, t)
             else
               let (err, t) = updateStatefulSet u c newCluster t
               in if err \<noteq> None
                  then
                    let (setStateErr, newCluster, t) =
                          setClusterState c newCluster ''Failed update''
                            ''The provided patch resulted in a StatefulSet update failure'' t
                    in (Return (NewAggregate [err, setStateErr]), newCluster, t)
                  else
                    let (r, newCluster, t) =
                          setClusterState c newCluster ''Successful update'' '''' t
                    in (Return r, newCluster, t))"

subsection \<open>Reading a trace\<close>

text \<open>The predicates the properties below use to pick events out of a trace.\<close>

fun isCreate :: "event \<Rightarrow> bool" where
  "isCreate (ServicesCreate ns s, e) = True"
| "isCreate (StatefulSetsCreate ns s, e) = True"
| "isCreate ev = False"

fun isDelete :: "event \<Rightarrow> bool" where
  "isDelete (ServicesDelete ns n, e) = True"
| "isDelete (StatefulSetsDelete ns n, e) = True"
| "isDelete ev = False"

fun isStatusWrite :: "event \<Rightarrow> bool" where
  "isStatusWrite (MySQLClustersUpdate ns cl, e) = True"
| "isStatusWrite ev = False"

fun isStatefulSetCall :: "event \<Rightarrow> bool" where
  "isStatefulSetCall (StatefulSetsCreate ns s, e) = True"
| "isStatefulSetCall (StatefulSetsUpdate ns s, e) = True"
| "isStatefulSetCall (StatefulSetsDelete ns n, e) = True"
| "isStatefulSetCall ev = False"

fun isServicesUpdate :: "event \<Rightarrow> bool" where
  "isServicesUpdate (ServicesUpdate ns s, e) = True"
| "isServicesUpdate ev = False"

text \<open>
  The answers of \<open>Create\<close> that the operator takes for success: no error, or
  \<open>AlreadyExists\<close>.
\<close>

definition createOK :: "error option \<Rightarrow> bool" where
  "createOK err = (err = None \<or> IsAlreadyExists err)"

subsection \<open>An in-memory platform and a sample resource\<close>

text \<open>
  A client that keeps objects by namespace and name, as the fake clientsets of
  client-go do: the objects present after a trace are those created without error and
  not deleted since. \<open>Create\<close> answers \<open>AlreadyExists\<close> for a name that is present;
  \<open>Get\<close>, \<open>Update\<close> and \<open>Delete\<close> answer \<open>NotFound\<close> for a name that is absent, and
  \<open>Get\<close> returns a \<open>nil\<close> pointer with that error.
\<close>

fun storeStep ::
  "(string \<times> string) list \<times> (string \<times> string) list \<Rightarrow> event
     \<Rightarrow> (string \<times> string) list \<times> (string \<times> string) list" where
  "storeStep (svcs, sets) (ServicesCreate ns s, None) =
     ((ns, Name (serviceMeta s)) # svcs, sets)"
| "storeStep (svcs, sets) (ServicesDelete ns n, None) = (removeAll (ns, n) svcs, sets)"
| "storeStep (svcs, sets) (StatefulSetsCreate ns s, None) =
     (svcs, (ns, Name (statefulSetMeta s)) # sets)"
| "storeStep (svcs, sets) (StatefulSetsDelete ns n, None) = (svcs, removeAll (ns, n) sets)"
| "storeStep st ev = st"

definition stored :: "trace \<Rightarrow> (string \<times> string) list \<times> (string \<times> string) list" where
  "stored t = foldl storeStep ([], []) t"

definition notFound :: error where
  "notFound = StatusError StatusReasonNotFound ''not found''"

definition alreadyExists :: error where
  "alreadyExists = StatusError StatusReasonAlreadyExists ''already exists''"

definition memoryKube :: kube where
  "memoryKube =
     \<lparr>Services_Create = (\<lambda>t ns s.
        if (ns, Name (serviceMeta s)) \<in> set (fst (stored t)) then Some alreadyExists
        else None),
      Services_Get = (\<lambda>t ns n.
        if (ns, n) \<in> set (fst (stored t))
        then (Some \<lparr>serviceMeta = \<lparr>Name = n, Namespace = ns, ResourceVersion = ''1''\<rparr>,
                     serviceSpec = ''''\<rparr>, None)
        else (None, Some notFound)),
      Services_Update = (\<lambda>t ns s.
        if (ns, Name (serviceMeta s)) \<in> set (fst (stored t)) then None else Some notFound),
      Services_Delete = (\<lambda>t ns n.
        if (ns, n) \<in> set (fst (stored t)) then None else Some notFound),
      StatefulSets_Create = (\<lambda>t ns s.
        if (ns, Name (statefulSetMeta s)) \<in> set (snd (stored t)) then Some alreadyExists
        else None),
      StatefulSets_Update = (\<lambda>t ns s.
        if (ns, Name (statefulSetMeta s)) \<in> set (snd (stored t)) then None
        else Some notFound),
      StatefulSets_Delete = (\<lambda>t ns n.
        if (ns, n) \<in> set (snd (stored t)) then None else Some notFound)\<rparr>"

text \<open>The operator's own client: no backup instance exists, status writes go through.\<close>

definition memoryVersioned :: versioned where
  "memoryVersioned =
     \<lparr>MySQLBackupInstances_Get = (\<lambda>t ns n. (None, Some notFound)),
      MySQLClusters_Update = (\<lambda>t ns cl. None)\<rparr>"

definition memoryOperator :: clusterOperator where
  "memoryOperator = \<lparr>clientset = memoryVersioned, kubeClientset = memoryKube\<rparr>"

text \<open>Failures injected into the in-memory platform.\<close>

definition quota :: error where
  "quota = PlainError ''exceeded quota''"

definition forbidden :: error where
  "forbidden = PlainError ''forbidden''"

definition timeout :: error where
  "timeout = PlainError ''request timed out''"

definition conflict :: error where
  "conflict = StatusError StatusReasonConflict ''the object has been modified''"

text \<open>The read service cannot be created.\<close>

definition quotaOperator :: clusterOperator where
  "quotaOperator =
     \<lparr>clientset = memoryVersioned,
      kubeClientset = memoryKube\<lparr>Services_Create := (\<lambda>t ns s.
        if Name (serviceMeta s) = ''db-read'' then Some quota
        else Services_Create memoryKube t ns s)\<rparr>\<rparr>"

text \<open>
  The read service cannot be created, and the service created before it has gone by
  the time it is deleted.
\<close>

definition vanishedOperator :: clusterOperator where
  "vanishedOperator =
     \<lparr>clientset = memoryVersioned,
      kubeClientset = memoryKube\<lparr>
        Services_Create := (\<lambda>t ns s.
          if Name (serviceMeta s) = ''db-read'' then Some quota
          else Services_Create memoryKube t ns s),
        Services_Delete := (\<lambda>t ns n. Some notFound)\<rparr>\<rparr>"

text \<open>No stateful set can be created and no service deleted.\<close>

definition forbiddenOperator :: clusterOperator where
  "forbiddenOperator =
     \<lparr>clientset = memoryVersioned,
      kubeClientset = memoryKube\<lparr>
        StatefulSets_Create := (\<lambda>t ns s. Some forbidden),
        Services_Delete := (\<lambda>t ns n. Some timeout)\<rparr>\<rparr>"

text \<open>Services cannot be updated, and the status write fails too.\<close>

definition conflictOperator :: clusterOperator where
  "conflictOperator =
     \<lparr>clientset = memoryVersioned\<lparr>MySQLClusters_Update := (\<lambda>t ns cl. Some timeout)\<rparr>,
      kubeClientset = memoryKube\<lparr>Services_Update := (\<lambda>t ns s. Some conflict)\<rparr>\<rparr>"

text \<open>Everything goes through but the status write.\<close>

definition statusOperator :: clusterOperator where
  "statusOperator =
     \<lparr>clientset = memoryVersioned\<lparr>MySQLClusters_Update := (\<lambda>t ns cl. Some timeout)\<rparr>,
      kubeClientset = memoryKube\<rparr>"

definition examplePkg :: pkg where
  "examplePkg =
     \<lparr>defaults = (\<lambda>s.
        s\<lparr>Storage := (case Storage s of None \<Rightarrow> Some ''1Gi'' | Some x \<Rightarrow> Some x)\<rparr>),
      renderService = (\<lambda>cl f.
        (\<lparr>serviceMeta =
            \<lparr>Name = (if f = serviceReadTemplate then ReadServiceName (Name (ObjectMeta cl))
                      else ServiceName (Name (ObjectMeta cl))),
             Namespace = Namespace (ObjectMeta cl), ResourceVersion = ''''\<rparr>,
          serviceSpec = f\<rparr>, None)),
      renderStatefulSet = (\<lambda>cl b f.
        (\<lparr>statefulSetMeta =
            \<lparr>Name = StatefulSetName (Name (ObjectMeta cl)),
             Namespace = Namespace (ObjectMeta cl), ResourceVersion = ''''\<rparr>,
          statefulSetSpec = f\<rparr>, None))\<rparr>"

definition exampleCluster :: MySQLCluster where
  "exampleCluster =
     \<lparr>ObjectMeta = \<lparr>Name = ''db'', Namespace = ''prod'', ResourceVersion = ''7''\<rparr>,
      Spec = \<lparr>Storage = None, FromBackup = ''''\<rparr>,
      Status = \<lparr>State = '''', Message = ''''\<rparr>\<rparr>"

definition exampleRestore :: MySQLCluster where
  "exampleRestore = exampleCluster\<lparr>Spec := \<lparr>Storage = None, FromBackup = ''nightly''\<rparr>\<rparr>"

text \<open>What the sample resource becomes and renders to.\<close>

definition exampleDefaulted :: MySQLCluster where
  "exampleDefaulted = exampleCluster\<lparr>Spec := \<lparr>Storage = Some ''1Gi'', FromBackup = ''''\<rparr>\<rparr>"

definition exampleService :: Service where
  "exampleService =
     \<lparr>serviceMeta = \<lparr>Name = ''db'', Namespace = ''prod'', ResourceVersion = ''''\<rparr>,
      serviceSpec = ''artifacts/cluster-service.yaml''\<rparr>"

definition exampleReadService :: Service where
  "exampleReadService =
     \<lparr>serviceMeta = \<lparr>Name = ''db-read'', Namespace = ''prod'', ResourceVersion = ''''\<rparr>,
      serviceSpec = ''artifacts/cluster-service-read.yaml''\<rparr>"

definition exampleStatefulSet :: StatefulSet where
  "exampleStatefulSet =
     \<lparr>statefulSetMeta = \<lparr>Name = ''db'', Namespace = ''prod'', ResourceVersion = ''''\<rparr>,
      statefulSetSpec = ''artifacts/cluster-statefulset.yaml''\<rparr>"

text \<open>The trace of a first, successful \<open>AddCluster\<close> of the sample resource.\<close>

definition exampleCreated :: trace where
  "exampleCreated =
     [(ServicesCreate ''prod'' exampleService, None),
      (ServicesCreate ''prod'' exampleReadService, None),
      (StatefulSetsCreate ''prod'' exampleStatefulSet, None)]"


section \<open>Properties\<close>

lemmas example_defs =
  examplePkg_def memoryOperator_def memoryKube_def memoryVersioned_def exampleCluster_def
  exampleRestore_def exampleDefaulted_def exampleService_def exampleReadService_def
  exampleStatefulSet_def exampleCreated_def quotaOperator_def vanishedOperator_def
  forbiddenOperator_def conflictOperator_def statusOperator_def
  quota_def forbidden_def timeout_def conflict_def
  stored_def notFound_def alreadyExists_def

lemmas operator_defs =
  serviceTemplate_def serviceReadTemplate_def statefulSetTemplate_def
  ServiceName_def ReadServiceName_def StatefulSetName_def WithDefaults_def
  serviceForCluster_def statefulSetForCluster_def createService_def createStatefulSet_def
  removeService_def removeReadService_def NewAggregate_def Let_def

lemma WithDefaults_meta [simp]: "ObjectMeta (WithDefaults u cluster) = ObjectMeta cluster"
  by (simp add: WithDefaults_def)

lemma WithDefaults_status [simp]: "Status (WithDefaults u cluster) = Status cluster"
  by (simp add: WithDefaults_def)

lemma status_fields [simp]:
  "(s :: MySQLClusterStatus)\<lparr>State := a, Message := b\<rparr> = \<lparr>State = a, Message = b\<rparr>"
  by (cases s) simp

subsection \<open>What \<open>createService\<close> returns\<close>

text \<open>
  \<open>createService\<close> returns an error in two cases only: the template did not render, and
  then nothing was called; or \<open>Create\<close> returned an error that is not
  \<open>AlreadyExists\<close>. In every other case it returns \<open>nil\<close> after one \<open>Create\<close>.
\<close>

lemma createService_cases:
  assumes "createService u c cluster filename t = (r, t')"
  shows "(r \<noteq> None \<and> r = snd (serviceForCluster u cluster filename) \<and> t' = t) \<or>
         (snd (serviceForCluster u cluster filename) = None \<and>
          (\<exists>e. e = Services_Create (kubeClientset c) t (Namespace (ObjectMeta cluster))
                      (fst (serviceForCluster u cluster filename)) \<and>
               t' = t @ [(ServicesCreate (Namespace (ObjectMeta cluster))
                            (fst (serviceForCluster u cluster filename)), e)] \<and>
               r = (if e \<noteq> None \<and> \<not> IsAlreadyExists e then e else None)))"
  using assms
  by (auto simp: createService_def Let_def split: prod.splits if_splits)

subsection \<open>Rolling back the read-write service\<close>

text \<open>
  C1. When the creation of the read-write service succeeds and the creation of the
  read-only service fails (by \<open>createService_cases\<close>: with a render error or with an
  error of \<open>Create\<close> that is not \<open>AlreadyExists\<close>), \<open>AddCluster\<close> deletes the
  read-write service, named \<open>ServiceName\<close> of the cluster, as its last call, and
  returns the aggregate of the creation error and, when the delete failed too, the
  error of the delete.
\<close>

theorem AddCluster_read_service_rollback:
  assumes "createService u c (WithDefaults u cluster) serviceTemplate t = (None, t1)"
    and "createService u c (WithDefaults u cluster) serviceReadTemplate t1 = (Some e, t2)"
  shows "let ns = Namespace (ObjectMeta cluster);
             name = ServiceName (Name (ObjectMeta cluster));
             removeErr = Services_Delete (kubeClientset c) t2 ns name
         in AddCluster u c cluster t =
              (Some (Aggregate (e # nonNil [removeErr])), WithDefaults u cluster,
               t2 @ [(ServicesDelete ns name, removeErr)])"
  using assms
  by (simp add: AddCluster_def removeService_def NewAggregate_def Let_def)

theorem AddCluster_read_service_rollback_witness:
  "createService examplePkg quotaOperator (WithDefaults examplePkg exampleCluster)
       serviceTemplate [] = (None, [(ServicesCreate ''prod'' exampleService, None)]) \<and>
   createService examplePkg quotaOperator (WithDefaults examplePkg exampleCluster)
       serviceReadTemplate [(ServicesCreate ''prod'' exampleService, None)] =
     (Some quota, [(ServicesCreate ''prod'' exampleService, None),
                   (ServicesCreate ''prod'' exampleReadService, Some quota)]) \<and>
   AddCluster examplePkg quotaOperator exampleCluster [] =
     (Some (Aggregate [quota]), exampleDefaulted,
      [(ServicesCreate ''prod'' exampleService, None),
       (ServicesCreate ''prod'' exampleReadService, Some quota),
       (ServicesDelete ''prod'' ''db'', None)])"
proof -
  have rw: "createService examplePkg quotaOperator (WithDefaults examplePkg exampleCluster)
       serviceTemplate [] = (None, [(ServicesCreate ''prod'' exampleService, None)])"
    by (simp add: operator_defs example_defs)
  have ro: "createService examplePkg quotaOperator (WithDefaults examplePkg exampleCluster)
       serviceReadTemplate [(ServicesCreate ''prod'' exampleService, None)] =
     (Some quota, [(ServicesCreate ''prod'' exampleService, None),
                   (ServicesCreate ''prod'' exampleReadService, Some quota)])"
    by (simp add: operator_defs example_defs)
  have "AddCluster examplePkg quotaOperator exampleCluster [] =
     (Some (Aggregate [quota]), exampleDefaulted,
      [(ServicesCreate ''prod'' exampleService, None),
       (ServicesCreate ''prod'' exampleReadService, Some quota),
       (ServicesDelete ''prod'' ''db'', None)])"
    using AddCluster_read_service_rollback [OF rw ro]
    by (simp add: operator_defs example_defs)
  with rw ro show ?thesis by simp
qed

subsection \<open>Rolling back both services\<close>

text \<open>
  C2. When both services were created (or were there already) and the creation of the
  stateful set fails, \<open>AddCluster\<close> deletes the read-write service and then the
  read-only service, as its last two calls, and returns an aggregate whose causes are
  the creation error followed by the error of each delete that failed: three causes at
  most when the creation error is a single one.
\<close>

theorem AddCluster_workload_rollback:
  assumes "createService u c (WithDefaults u cluster) serviceTemplate t = (None, t1)"
    and "createService u c (WithDefaults u cluster) serviceReadTemplate t1 = (None, t2)"
    and "createStatefulSet u c (WithDefaults u cluster) t2 = (Some e, t3)"
  shows "let ns = Namespace (ObjectMeta cluster);
             name = ServiceName (Name (ObjectMeta cluster));
             readName = ReadServiceName (Name (ObjectMeta cluster));
             removeErr = Services_Delete (kubeClientset c) t3 ns name;
             t4 = t3 @ [(ServicesDelete ns name, removeErr)];
             removeReadErr = Services_Delete (kubeClientset c) t4 ns readName
         in AddCluster u c cluster t =
              (Some (Aggregate (Aggregate (e # nonNil [removeErr]) # nonNil [removeReadErr])),
               WithDefaults u cluster,
               t4 @ [(ServicesDelete ns readName, removeReadErr)]) \<and>
            causesOf (fst (AddCluster u c cluster t)) =
              causes e @ causesOf removeErr @ causesOf removeReadErr"
proof -
  define ns where "ns = Namespace (ObjectMeta cluster)"
  define name where "name = ServiceName (Name (ObjectMeta cluster))"
  define readName where "readName = ReadServiceName (Name (ObjectMeta cluster))"
  define removeErr where "removeErr = Services_Delete (kubeClientset c) t3 ns name"
  define t4 where "t4 = t3 @ [(ServicesDelete ns name, removeErr)]"
  define removeReadErr where "removeReadErr = Services_Delete (kubeClientset c) t4 ns readName"
  note defs = ns_def name_def readName_def removeErr_def t4_def removeReadErr_def
  have run: "AddCluster u c cluster t =
      (NewAggregate [NewAggregate [Some e, removeErr], removeReadErr],
       WithDefaults u cluster, t4 @ [(ServicesDelete ns readName, removeReadErr)])"
    using assms
    by (simp add: AddCluster_def removeService_def removeReadService_def Let_def defs)
  have agg: "NewAggregate [NewAggregate [Some e, removeErr], removeReadErr] =
      Some (Aggregate (Aggregate (e # nonNil [removeErr]) # nonNil [removeReadErr]))"
    by (simp add: NewAggregate_def)
  have cs: "causes (Aggregate (Aggregate (e # nonNil [removeErr]) # nonNil [removeReadErr])) =
      causes e @ causesOf removeErr @ causesOf removeReadErr"
    by (cases removeErr; cases removeReadErr) simp_all
  show ?thesis
    unfolding Let_def defs [symmetric]
    using run agg cs by simp
qed

theorem AddCluster_workload_rollback_witness:
  "createService examplePkg forbiddenOperator (WithDefaults examplePkg exampleCluster)
       serviceTemplate [] = (None, [(ServicesCreate ''prod'' exampleService, None)]) \<and>
   createService examplePkg forbiddenOperator (WithDefaults examplePkg exampleCluster)
       serviceReadTemplate [(ServicesCreate ''prod'' exampleService, None)] =
     (None, [(ServicesCreate ''prod'' exampleService, None),
             (ServicesCreate ''prod'' exampleReadService, None)]) \<and>
   createStatefulSet examplePkg forbiddenOperator (WithDefaults examplePkg exampleCluster)
       [(ServicesCreate ''prod'' exampleService, None),
        (ServicesCreate ''prod'' exampleReadService, None)] =
     (Some forbidden, [(ServicesCreate ''prod'' exampleService, None),
                       (ServicesCreate ''prod'' exampleReadService, None),
                       (StatefulSetsCreate ''prod'' exampleStatefulSet, Some forbidden)]) \<and>
   AddCluster examplePkg forbiddenOperator exampleCluster [] =
     (Some (Aggregate [Aggregate [forbidden, timeout], timeout]), exampleDefaulted,
      [(ServicesCreate ''prod'' exampleService, None),
       (ServicesCreate ''prod'' exampleReadService, None),
       (StatefulSetsCreate ''prod'' exampleStatefulSet, Some forbidden),
       (ServicesDelete ''prod'' ''db'', Some timeout),
       (ServicesDelete ''prod'' ''db-read'', Some timeout)]) \<and>
   causesOf (fst (AddCluster examplePkg forbiddenOperator exampleCluster [])) =
     [forbidden, timeout, timeout]"
proof -
  have rw: "createService examplePkg forbiddenOperator (WithDefaults examplePkg exampleCluster)
       serviceTemplate [] = (None, [(ServicesCreate ''prod'' exampleService, None)])"
    by (simp add: operator_defs example_defs)
  have ro: "createService examplePkg forbiddenOperator (WithDefaults examplePkg exampleCluster)
       serviceReadTemplate [(ServicesCreate ''prod'' exampleService, None)] =
     (None, [(ServicesCreate ''prod'' exampleService, None),
             (ServicesCreate ''prod'' exampleReadService, None)])"
    by (simp add: operator_defs example_defs)
  have sts: "createStatefulSet examplePkg forbiddenOperator
       (WithDefaults examplePkg exampleCluster)
       [(ServicesCreate ''prod'' exampleService, None),
        (ServicesCreate ''prod'' exampleReadService, None)] =
     (Some forbidden, [(ServicesCreate ''prod'' exampleService, None),
                       (ServicesCreate ''prod'' exampleReadService, None),
                       (StatefulSetsCreate ''prod'' exampleStatefulSet, Some forbidden)])"
    by (simp add: operator_defs example_defs)
  have "AddCluster examplePkg forbiddenOperator exampleCluster [] =
     (Some (Aggregate [Aggregate [forbidden, timeout], timeout]), exampleDefaulted,
      [(ServicesCreate ''prod'' exampleService, None),
       (ServicesCreate ''prod'' exampleReadService, None),
       (StatefulSetsCreate ''prod'' exampleStatefulSet, Some forbidden),
       (ServicesDelete ''prod'' ''db'', Some timeout),
       (ServicesDelete ''prod'' ''db-read'', Some timeout)]) \<and>
   causesOf (fst (AddCluster examplePkg forbiddenOperator exampleCluster [])) =
     [forbidden, timeout, timeout]"
    using AddCluster_workload_rollback [OF rw ro sts]
    by (simp add: operator_defs example_defs)
  with rw ro sts show ?thesis by blast
qed

subsection \<open>The events each step appends\<close>

text \<open>
  The creation steps only append to the trace: \<open>createService\<close> nothing or one
  \<open>Create\<close>, \<open>createStatefulSet\<close> at most the read of the backup and one \<open>Create\<close>.
\<close>

lemma createService_extends:
  assumes "createService u c cluster filename t = (r, t')"
  shows "\<exists>new. t' = t @ new \<and> filter isDelete new = [] \<and> filter isStatusWrite new = [] \<and>
           filter isStatefulSetCall new = []"
  using assms
  by (auto simp: createService_def Let_def split: prod.splits if_splits)

lemma createStatefulSet_extends:
  assumes "createStatefulSet u c cluster t = (r, t')"
  shows "\<exists>new. t' = t @ new \<and> filter isDelete new = [] \<and> filter isStatusWrite new = []"
  using assms
  by (auto simp: createStatefulSet_def Let_def split: prod.splits if_splits)

lemma causes_nonNil_single: "concat (map causes (nonNil [d])) = causesOf d"
  by (cases d) simp_all

subsection \<open>A failed backup read\<close>

text \<open>
  C3, as the code has it. The specification says that a failed read of the backup makes
  \<open>AddCluster\<close> return that error alone and delete nothing. \<open>createStatefulSet\<close> does
  return that error, without rendering or creating the stateful set; but
  \<open>AddCluster\<close> treats every error of \<open>createStatefulSet\<close> alike: it deletes the
  read-write and then the read-only service and returns the aggregate of the error of
  the read and of each delete that failed.
\<close>

theorem AddCluster_backup_failure_rolls_back:
  assumes "createService u c (WithDefaults u cluster) serviceTemplate t = (None, t1)"
    and "createService u c (WithDefaults u cluster) serviceReadTemplate t1 = (None, t2)"
    and "FromBackup (Spec (WithDefaults u cluster)) \<noteq> ''''"
    and "MySQLBackupInstances_Get (clientset c) t2 (Namespace (ObjectMeta cluster))
           (FromBackup (Spec (WithDefaults u cluster))) = (backup, Some e)"
  shows "let ns = Namespace (ObjectMeta cluster);
             name = ServiceName (Name (ObjectMeta cluster));
             readName = ReadServiceName (Name (ObjectMeta cluster));
             t3 = t2 @ [(MySQLBackupInstancesGet ns (FromBackup (Spec (WithDefaults u cluster))),
                         Some e)];
             removeErr = Services_Delete (kubeClientset c) t3 ns name;
             t4 = t3 @ [(ServicesDelete ns name, removeErr)];
             removeReadErr = Services_Delete (kubeClientset c) t4 ns readName
         in createStatefulSet u c (WithDefaults u cluster) t2 = (Some e, t3) \<and>
            AddCluster u c cluster t =
              (Some (Aggregate (Aggregate (e # nonNil [removeErr]) # nonNil [removeReadErr])),
               WithDefaults u cluster,
               t4 @ [(ServicesDelete ns readName, removeReadErr)])"
proof -
  have sts: "createStatefulSet u c (WithDefaults u cluster) t2 =
      (Some e, t2 @ [(MySQLBackupInstancesGet (Namespace (ObjectMeta cluster))
                        (FromBackup (Spec (WithDefaults u cluster))), Some e)])"
    using assms(3,4) by (simp add: createStatefulSet_def Let_def)
  show ?thesis
    using assms(1,2) sts
    by (simp add: AddCluster_def removeService_def removeReadService_def NewAggregate_def
        Let_def)
qed

theorem AddCluster_backup_failure_rolls_back_witness:
  "createService examplePkg memoryOperator (WithDefaults examplePkg exampleRestore)
       serviceTemplate [] = (None, [(ServicesCreate ''prod'' exampleService, None)]) \<and>
   createService examplePkg memoryOperator (WithDefaults examplePkg exampleRestore)
       serviceReadTemplate [(ServicesCreate ''prod'' exampleService, None)] =
     (None, [(ServicesCreate ''prod'' exampleService, None),
             (ServicesCreate ''prod'' exampleReadService, None)]) \<and>
   FromBackup (Spec (WithDefaults examplePkg exampleRestore)) = ''nightly'' \<and>
   createStatefulSet examplePkg memoryOperator (WithDefaults examplePkg exampleRestore)
       [(ServicesCreate ''prod'' exampleService, None),
        (ServicesCreate ''prod'' exampleReadService, None)] =
     (Some notFound, [(ServicesCreate ''prod'' exampleService, None),
                      (ServicesCreate ''prod'' exampleReadService, None),
                      (MySQLBackupInstancesGet ''prod'' ''nightly'', Some notFound)]) \<and>
   AddCluster examplePkg memoryOperator exampleRestore [] =
     (Some (Aggregate [Aggregate [notFound]]), WithDefaults examplePkg exampleRestore,
      [(ServicesCreate ''prod'' exampleService, None),
       (ServicesCreate ''prod'' exampleReadService, None),
       (MySQLBackupInstancesGet ''prod'' ''nightly'', Some notFound),
       (ServicesDelete ''prod'' ''db'', None),
       (ServicesDelete ''prod'' ''db-read'', None)])"
proof -
  have rw: "createService examplePkg memoryOperator (WithDefaults examplePkg exampleRestore)
       serviceTemplate [] = (None, [(ServicesCreate ''prod'' exampleService, None)])"
    by (simp add: operator_defs example_defs)
  have ro: "createService examplePkg memoryOperator (WithDefaults examplePkg exampleRestore)
       serviceReadTemplate [(ServicesCreate ''prod'' exampleService, None)] =
     (None, [(ServicesCreate ''prod'' exampleService, None),
             (ServicesCreate ''prod'' exampleReadService, None)])"
    by (simp add: operator_defs example_defs)
  have fb: "FromBackup (Spec (WithDefaults examplePkg exampleRestore)) \<noteq> ''''"
    by (simp add: operator_defs example_defs)
  have get: "MySQLBackupInstances_Get (clientset memoryOperator)
       [(ServicesCreate ''prod'' exampleService, None),
        (ServicesCreate ''prod'' exampleReadService, None)]
       (Namespace (ObjectMeta exampleRestore))
       (FromBackup (Spec (WithDefaults examplePkg exampleRestore))) = (None, Some notFound)"
    by (simp add: example_defs)
  show ?thesis
    using AddCluster_backup_failure_rolls_back [OF rw ro fb get] rw ro
    by (simp add: operator_defs example_defs)
qed

text \<open>
  The sentence of the specification fails on the in-memory platform for a resource to restore from the backup
  \<open>nightly\<close>, which does not exist: the result is not the error of the read but an
  aggregate around it, and both services are deleted.
\<close>

theorem AddCluster_backup_failure_counterexample:
  "FromBackup (Spec (WithDefaults examplePkg exampleRestore)) = ''nightly'' \<and>
   fst (AddCluster examplePkg memoryOperator exampleRestore []) \<noteq> Some notFound \<and>
   snd (snd (AddCluster examplePkg memoryOperator exampleRestore [])) =
     [(ServicesCreate ''prod'' exampleService, None),
      (ServicesCreate ''prod'' exampleReadService, None),
      (MySQLBackupInstancesGet ''prod'' ''nightly'', Some notFound),
      (ServicesDelete ''prod'' ''db'', None),
      (ServicesDelete ''prod'' ''db-read'', None)]"
  by (simp add: AddCluster_def operator_defs example_defs)

subsection \<open>Errors of the compensating deletes\<close>

text \<open>
  C7, as the code has it. The specification says that a \<open>NotFound\<close> returned by a compensating
  delete is left out of the error \<open>AddCluster\<close> returns. \<open>removeService\<close> and
  \<open>removeReadService\<close> return the error of \<open>Delete\<close> as it is and \<open>AddCluster\<close>
  aggregates it without looking at its reason: every error a delete issued by
  \<open>AddCluster\<close> returns, \<open>NotFound\<close> included, is among the causes of the result.
\<close>

theorem AddCluster_reports_delete_errors:
  assumes "(ServicesDelete ns n, Some d) \<in>
             set (drop (length t) (snd (snd (AddCluster u c cluster t))))"
  shows "set (causes d) \<subseteq> set (causesOf (fst (AddCluster u c cluster t)))"
proof -
  let ?cl = "WithDefaults u cluster"
  let ?ns = "Namespace (ObjectMeta cluster)"
  obtain r1 t1 where s1: "createService u c ?cl serviceTemplate t = (r1, t1)"
    by force
  obtain r2 t2 where s2: "createService u c ?cl serviceReadTemplate t1 = (r2, t2)"
    by force
  obtain r3 t3 where s3: "createStatefulSet u c ?cl t2 = (r3, t3)"
    by force
  obtain n1 where n1: "t1 = t @ n1" "filter isDelete n1 = []"
    using createService_extends [OF s1] by blast
  obtain n2 where n2: "t2 = t1 @ n2" "filter isDelete n2 = []"
    using createService_extends [OF s2] by blast
  obtain n3 where n3: "t3 = t2 @ n3" "filter isDelete n3 = []"
    using createStatefulSet_extends [OF s3] by blast
  have quiet: "(ServicesDelete ns n, Some d) \<notin> set n1"
    "(ServicesDelete ns n, Some d) \<notin> set n2" "(ServicesDelete ns n, Some d) \<notin> set n3"
    using n1(2) n2(2) n3(2) by (auto simp: filter_empty_conv)
  show ?thesis
  proof (cases r1)
    case (Some e1)
    with s1 have "snd (snd (AddCluster u c cluster t)) = t1"
      by (simp add: AddCluster_def Let_def)
    with assms n1(1) quiet show ?thesis by simp
  next
    case None
    note r1 = this
    show ?thesis
    proof (cases r2)
      case (Some e2)
      define d1 where "d1 = Services_Delete (kubeClientset c) t2 ?ns
        (ServiceName (Name (ObjectMeta cluster)))"
      have run: "AddCluster u c cluster t =
          (Some (Aggregate (e2 # nonNil [d1])), ?cl,
           t2 @ [(ServicesDelete ?ns (ServiceName (Name (ObjectMeta cluster))), d1)])"
        using s1 s2 r1 Some
        by (simp add: AddCluster_def removeService_def NewAggregate_def Let_def d1_def)
      from assms have "d1 = Some d"
        using quiet by (simp add: run n1(1) n2(1))
      then show ?thesis by (auto simp: run)
    next
      case None
      note r2 = this
      show ?thesis
      proof (cases r3)
        case None
        with s1 s2 s3 r1 r2 have "snd (snd (AddCluster u c cluster t)) = t3"
          by (simp add: AddCluster_def Let_def)
        with assms n1(1) n2(1) n3(1) quiet show ?thesis by simp
      next
        case (Some e3)
        define d1 where "d1 = Services_Delete (kubeClientset c) t3 ?ns
          (ServiceName (Name (ObjectMeta cluster)))"
        define t4 where "t4 =
          t3 @ [(ServicesDelete ?ns (ServiceName (Name (ObjectMeta cluster))), d1)]"
        define d2 where "d2 = Services_Delete (kubeClientset c) t4 ?ns
          (ReadServiceName (Name (ObjectMeta cluster)))"
        have run: "AddCluster u c cluster t =
            (Some (Aggregate (Aggregate (e3 # nonNil [d1]) # nonNil [d2])), ?cl,
             t4 @ [(ServicesDelete ?ns (ReadServiceName (Name (ObjectMeta cluster))), d2)])"
          using s1 s2 s3 r1 r2 Some
          by (simp add: AddCluster_def removeService_def removeReadService_def
              NewAggregate_def Let_def d1_def t4_def d2_def)
        from assms have "d1 = Some d \<or> d2 = Some d"
          using quiet by (auto simp: run t4_def n1(1) n2(1) n3(1))
        then show ?thesis
          by (auto simp: run causes_nonNil_single)
      qed
    qed
  qed
qed

theorem AddCluster_reports_delete_errors_witness:
  "(ServicesDelete ''prod'' ''db'', Some notFound) \<in>
     set (drop (length ([] :: trace))
            (snd (snd (AddCluster examplePkg vanishedOperator exampleCluster [])))) \<and>
   set (causes notFound) \<subseteq>
     set (causesOf (fst (AddCluster examplePkg vanishedOperator exampleCluster [])))"
proof -
  have del: "(ServicesDelete ''prod'' ''db'', Some notFound) \<in>
     set (drop (length ([] :: trace))
            (snd (snd (AddCluster examplePkg vanishedOperator exampleCluster []))))"
    by (simp add: AddCluster_def operator_defs example_defs)
  from AddCluster_reports_delete_errors [OF del] del show ?thesis by blast
qed

text \<open>
  The sentence of the specification fails on the platform where the read service cannot be created and the
  delete of the read-write service answers \<open>NotFound\<close>: that \<open>NotFound\<close> is the second
  error of the aggregate \<open>AddCluster\<close> returns.
\<close>

theorem AddCluster_NotFound_counterexample:
  "IsNotFound (Some notFound) \<and>
   AddCluster examplePkg vanishedOperator exampleCluster [] =
     (Some (Aggregate [quota, notFound]), exampleDefaulted,
      [(ServicesCreate ''prod'' exampleService, None),
       (ServicesCreate ''prod'' exampleReadService, Some quota),
       (ServicesDelete ''prod'' ''db'', Some notFound)]) \<and>
   notFound \<in> set (causesOf (fst (AddCluster examplePkg vanishedOperator exampleCluster [])))"
  by (simp add: AddCluster_def operator_defs example_defs)

subsection \<open>Updates\<close>

text \<open>\<open>updateService\<close> and \<open>updateServices\<close> call nothing but the service interface.\<close>

lemma updateService_no_statefulset:
  "filter isStatefulSetCall (snd (updateService u cluster si template t)) =
     filter isStatefulSetCall t"
  by (auto simp: updateService_def Let_def split: prod.splits option.splits)

lemma updateServices_no_statefulset:
  "filter isStatefulSetCall (snd (updateServices u c cluster t)) = filter isStatefulSetCall t"
proof -
  let ?si = "(kubeClientset c, Namespace (ObjectMeta cluster))"
  obtain r1 t1 where s1: "updateService u cluster ?si serviceTemplate t = (r1, t1)"
    by force
  have f1: "filter isStatefulSetCall t1 = filter isStatefulSetCall t"
    using updateService_no_statefulset [of u cluster ?si serviceTemplate t] s1 by simp
  have f2: "filter isStatefulSetCall (snd (updateService u cluster ?si serviceReadTemplate t1)) =
      filter isStatefulSetCall t1"
    by (rule updateService_no_statefulset)
  show ?thesis
    using s1 f1 f2
    by (auto simp: updateServices_def Let_def split: outcome.splits)
qed

text \<open>
  C4. When the update of the services fails, \<open>UpdateCluster\<close> sets the status of the
  resource to the state \<open>Failed update\<close> with the message
  \<open>The provided patch resulted in a Service update failure\<close>, sends the resource with
  that status to the platform as its last call, makes no call on stateful sets, and
  returns the aggregate of the update error and, when the status write failed, its
  error.
\<close>

theorem UpdateCluster_service_failure:
  assumes "updateServices u c (WithDefaults u cluster) t = (Return (Some e), t1)"
  shows "let ns = Namespace (ObjectMeta cluster);
             failed = (WithDefaults u cluster)\<lparr>Status :=
               \<lparr>State = ''Failed update'',
                Message = ''The provided patch resulted in a Service update failure''\<rparr>\<rparr>;
             setStateErr = MySQLClusters_Update (clientset c) t1 ns failed
         in UpdateCluster u c cluster t =
              (Return (Some (Aggregate (e # nonNil [setStateErr]))), failed,
               t1 @ [(MySQLClustersUpdate ns failed, setStateErr)]) \<and>
            filter isStatefulSetCall (snd (snd (UpdateCluster u c cluster t))) =
              filter isStatefulSetCall t"
proof -
  have "filter isStatefulSetCall t1 = filter isStatefulSetCall t"
    using updateServices_no_statefulset [of u c "WithDefaults u cluster" t] assms by simp
  with assms show ?thesis
    by (simp add: UpdateCluster_def setClusterState_def NewAggregate_def Let_def)
qed

theorem UpdateCluster_service_failure_witness:
  "updateServices examplePkg conflictOperator (WithDefaults examplePkg exampleCluster)
       exampleCreated =
     (Return (Some conflict),
      exampleCreated @
      [(ServicesGet ''prod'' ''db'', None),
       (ServicesUpdate ''prod''
          (exampleService\<lparr>serviceMeta :=
             \<lparr>Name = ''db'', Namespace = ''prod'', ResourceVersion = ''1''\<rparr>\<rparr>),
        Some conflict)]) \<and>
   fst (UpdateCluster examplePkg conflictOperator exampleCluster exampleCreated) =
     Return (Some (Aggregate [conflict, timeout])) \<and>
   Status (fst (snd (UpdateCluster examplePkg conflictOperator exampleCluster exampleCreated))) =
     \<lparr>State = ''Failed update'',
      Message = ''The provided patch resulted in a Service update failure''\<rparr> \<and>
   filter isStatefulSetCall
       (snd (snd (UpdateCluster examplePkg conflictOperator exampleCluster exampleCreated))) =
     [(StatefulSetsCreate ''prod'' exampleStatefulSet, None)]"
proof -
  have us: "updateServices examplePkg conflictOperator (WithDefaults examplePkg exampleCluster)
       exampleCreated =
     (Return (Some conflict),
      exampleCreated @
      [(ServicesGet ''prod'' ''db'', None),
       (ServicesUpdate ''prod''
          (exampleService\<lparr>serviceMeta :=
             \<lparr>Name = ''db'', Namespace = ''prod'', ResourceVersion = ''1''\<rparr>\<rparr>),
        Some conflict)])"
    by (simp add: updateServices_def updateService_def operator_defs example_defs)
  have st: "filter isStatefulSetCall exampleCreated =
      [(StatefulSetsCreate ''prod'' exampleStatefulSet, None)]"
    by (simp add: exampleCreated_def)
  have "fst (UpdateCluster examplePkg conflictOperator exampleCluster exampleCreated) =
     Return (Some (Aggregate [conflict, timeout])) \<and>
   Status (fst (snd (UpdateCluster examplePkg conflictOperator exampleCluster exampleCreated))) =
     \<lparr>State = ''Failed update'',
      Message = ''The provided patch resulted in a Service update failure''\<rparr> \<and>
   filter isStatefulSetCall
       (snd (snd (UpdateCluster examplePkg conflictOperator exampleCluster exampleCreated))) =
     [(StatefulSetsCreate ''prod'' exampleStatefulSet, None)]"
    using UpdateCluster_service_failure [OF us] st
    by (simp add: Let_def conflictOperator_def memoryVersioned_def)
  with us show ?thesis by blast
qed

text \<open>
  C5. When the update of the services and the update of the stateful set succeed,
  \<open>UpdateCluster\<close> sets the status of the resource to the state \<open>Successful update\<close>
  with the empty message, sends it to the platform as its last call, and returns what
  that status write returned, as it is.
\<close>

theorem UpdateCluster_success:
  assumes "updateServices u c (WithDefaults u cluster) t = (Return None, t1)"
    and "updateStatefulSet u c (WithDefaults u cluster) t1 = (None, t2)"
  shows "let ns = Namespace (ObjectMeta cluster);
             updated = (WithDefaults u cluster)\<lparr>Status :=
               \<lparr>State = ''Successful update'', Message = ''''\<rparr>\<rparr>;
             updateErr = MySQLClusters_Update (clientset c) t2 ns updated
         in UpdateCluster u c cluster t =
              (Return updateErr, updated, t2 @ [(MySQLClustersUpdate ns updated, updateErr)])"
  using assms
  by (simp add: UpdateCluster_def setClusterState_def Let_def)

theorem UpdateCluster_success_witness:
  "updateServices examplePkg statusOperator (WithDefaults examplePkg exampleCluster)
       exampleCreated =
     (Return None,
      exampleCreated @
      [(ServicesGet ''prod'' ''db'', None),
       (ServicesUpdate ''prod''
          (exampleService\<lparr>serviceMeta :=
             \<lparr>Name = ''db'', Namespace = ''prod'', ResourceVersion = ''1''\<rparr>\<rparr>), None),
       (ServicesGet ''prod'' ''db-read'', None),
       (ServicesUpdate ''prod''
          (exampleReadService\<lparr>serviceMeta :=
             \<lparr>Name = ''db-read'', Namespace = ''prod'', ResourceVersion = ''1''\<rparr>\<rparr>), None)]) \<and>
   fst (updateStatefulSet examplePkg statusOperator (WithDefaults examplePkg exampleCluster)
       (snd (updateServices examplePkg statusOperator (WithDefaults examplePkg exampleCluster)
          exampleCreated))) = None \<and>
   fst (UpdateCluster examplePkg statusOperator exampleCluster exampleCreated) =
     Return (Some timeout) \<and>
   Status (fst (snd (UpdateCluster examplePkg statusOperator exampleCluster exampleCreated))) =
     \<lparr>State = ''Successful update'', Message = ''''\<rparr>"
proof -
  have us: "updateServices examplePkg statusOperator (WithDefaults examplePkg exampleCluster)
       exampleCreated =
     (Return None,
      exampleCreated @
      [(ServicesGet ''prod'' ''db'', None),
       (ServicesUpdate ''prod''
          (exampleService\<lparr>serviceMeta :=
             \<lparr>Name = ''db'', Namespace = ''prod'', ResourceVersion = ''1''\<rparr>\<rparr>), None),
       (ServicesGet ''prod'' ''db-read'', None),
       (ServicesUpdate ''prod''
          (exampleReadService\<lparr>serviceMeta :=
             \<lparr>Name = ''db-read'', Namespace = ''prod'', ResourceVersion = ''1''\<rparr>\<rparr>), None)])"
    by (simp add: updateServices_def updateService_def operator_defs example_defs)
  obtain t2 where ss: "updateStatefulSet examplePkg statusOperator
       (WithDefaults examplePkg exampleCluster)
       (exampleCreated @
      [(ServicesGet ''prod'' ''db'', None),
       (ServicesUpdate ''prod''
          (exampleService\<lparr>serviceMeta :=
             \<lparr>Name = ''db'', Namespace = ''prod'', ResourceVersion = ''1''\<rparr>\<rparr>), None),
       (ServicesGet ''prod'' ''db-read'', None),
       (ServicesUpdate ''prod''
          (exampleReadService\<lparr>serviceMeta :=
             \<lparr>Name = ''db-read'', Namespace = ''prod'', ResourceVersion = ''1''\<rparr>\<rparr>), None)]) =
     (None, t2)"
    by (simp add: updateStatefulSet_def operator_defs example_defs)
  have "fst (UpdateCluster examplePkg statusOperator exampleCluster exampleCreated) =
     Return (Some timeout) \<and>
   Status (fst (snd (UpdateCluster examplePkg statusOperator exampleCluster exampleCreated))) =
     \<lparr>State = ''Successful update'', Message = ''''\<rparr>"
    using UpdateCluster_success [OF us ss]
    by (simp add: Let_def statusOperator_def memoryVersioned_def)
  with us ss show ?thesis by simp
qed

subsection \<open>The status during creation\<close>

text \<open>
  C8. \<open>AddCluster\<close> never writes the status of the resource: whatever the outcome, the
  resource it leaves has the status it was given, and the trace holds no status update
  that was not there before the call. (Defaulting, modelled from the spec, changes
  fields of the resource's spec only.)
\<close>

theorem AddCluster_leaves_status:
  "Status (fst (snd (AddCluster u c cluster t))) = Status cluster \<and>
   filter isStatusWrite (snd (snd (AddCluster u c cluster t))) = filter isStatusWrite t"
proof -
  let ?cl = "WithDefaults u cluster"
  obtain r1 t1 where s1: "createService u c ?cl serviceTemplate t = (r1, t1)"
    by force
  obtain r2 t2 where s2: "createService u c ?cl serviceReadTemplate t1 = (r2, t2)"
    by force
  obtain r3 t3 where s3: "createStatefulSet u c ?cl t2 = (r3, t3)"
    by force
  have f1: "filter isStatusWrite t1 = filter isStatusWrite t"
    using createService_extends [OF s1] by auto
  have f2: "filter isStatusWrite t2 = filter isStatusWrite t"
    using createService_extends [OF s2] f1 by auto
  have f3: "filter isStatusWrite t3 = filter isStatusWrite t"
    using createStatefulSet_extends [OF s3] f2 by auto
  show ?thesis
    using s1 s2 s3 f1 f2 f3
    by (simp add: AddCluster_def removeService_def removeReadService_def Let_def)
qed

subsection \<open>Creation over objects that exist\<close>

text \<open>
  When the template renders and \<open>Create\<close> answers no error or \<open>AlreadyExists\<close>,
  \<open>createService\<close> returns \<open>nil\<close> after that one \<open>Create\<close>.
\<close>

lemma createService_ok:
  assumes "snd (serviceForCluster u cluster filename) = None"
    and "createOK (Services_Create (kubeClientset c) t (Namespace (ObjectMeta cluster))
           (fst (serviceForCluster u cluster filename)))"
  shows "createService u c cluster filename t =
           (None, t @ [(ServicesCreate (Namespace (ObjectMeta cluster))
                          (fst (serviceForCluster u cluster filename)),
                        Services_Create (kubeClientset c) t (Namespace (ObjectMeta cluster))
                          (fst (serviceForCluster u cluster filename)))])"
  using assms
  by (cases "serviceForCluster u cluster filename")
     (auto simp: createService_def createOK_def Let_def)

text \<open>
  When no backup is asked for or the backup can be read, the template renders and
  \<open>Create\<close> answers no error or \<open>AlreadyExists\<close>, \<open>createStatefulSet\<close> returns
  \<open>nil\<close> after one \<open>Create\<close>, preceded at most by the read of the backup.
\<close>

lemma createStatefulSet_ok:
  assumes "FromBackup (Spec cluster) = '''' \<or>
           (\<forall>t ns n. snd (MySQLBackupInstances_Get (clientset c) t ns n) = None)"
    and "\<forall>backup. snd (statefulSetForCluster u cluster backup) = None"
    and "\<forall>t ns s. createOK (StatefulSets_Create (kubeClientset c) t ns s)"
  shows "\<exists>pre backup e.
           createStatefulSet u c cluster t =
             (None, t @ pre @ [(StatefulSetsCreate (Namespace (ObjectMeta cluster))
                                  (fst (statefulSetForCluster u cluster backup)), e)]) \<and>
           filter isCreate pre = [] \<and> filter isDelete pre = []"
proof (cases "FromBackup (Spec cluster) = ''''")
  case True
  let ?pre = "[] :: trace"
  let ?set = "fst (statefulSetForCluster u cluster None)"
  let ?e = "StatefulSets_Create (kubeClientset c) t (Namespace (ObjectMeta cluster)) ?set"
  have "snd (statefulSetForCluster u cluster None) = None" "createOK ?e"
    using assms(2,3) by simp_all
  with True have "createStatefulSet u c cluster t =
      (None, t @ ?pre @ [(StatefulSetsCreate (Namespace (ObjectMeta cluster)) ?set, ?e)])"
    by (cases "statefulSetForCluster u cluster None")
       (auto simp: createStatefulSet_def createOK_def Let_def)
  moreover have "filter isCreate ?pre = []" "filter isDelete ?pre = []"
    by simp_all
  ultimately show ?thesis by blast
next
  case False
  let ?ns = "Namespace (ObjectMeta cluster)"
  obtain backup err where get:
    "MySQLBackupInstances_Get (clientset c) t ?ns (FromBackup (Spec cluster)) = (backup, err)"
    by force
  have err: "err = None"
    using assms(1) False get by (metis snd_conv)
  let ?pre = "[(MySQLBackupInstancesGet ?ns (FromBackup (Spec cluster)), None :: error option)]"
  let ?set = "fst (statefulSetForCluster u cluster backup)"
  let ?e = "StatefulSets_Create (kubeClientset c) (t @ ?pre) ?ns ?set"
  have "snd (statefulSetForCluster u cluster backup) = None" "createOK ?e"
    using assms(2,3) by simp_all
  with False get err have "createStatefulSet u c cluster t =
      (None, t @ ?pre @ [(StatefulSetsCreate ?ns ?set, ?e)])"
    by (cases "statefulSetForCluster u cluster backup")
       (auto simp: createStatefulSet_def createOK_def Let_def)
  moreover have "filter isCreate ?pre = []" "filter isDelete ?pre = []"
    by simp_all
  ultimately show ?thesis by blast
qed

text \<open>
  C6. On a platform where every \<open>Create\<close> of a service or a stateful set answers no
  error or \<open>AlreadyExists\<close>, for a resource whose three templates render and whose
  backup, when one is asked for, can be read, \<open>AddCluster\<close> returns no error,
  deletes nothing, and makes exactly one \<open>Create\<close> for each derived object: the
  read-write service, the read-only service and the stateful set, in that order. An
  \<open>AlreadyExists\<close> is not followed by a second \<open>Create\<close>. The trace \<open>t\<close> before
  the call is arbitrary, so this holds for a second \<open>AddCluster\<close> after a first one.
\<close>

theorem AddCluster_idempotent:
  assumes "snd (serviceForCluster u (WithDefaults u cluster) serviceTemplate) = None"
    and "snd (serviceForCluster u (WithDefaults u cluster) serviceReadTemplate) = None"
    and "\<forall>backup. snd (statefulSetForCluster u (WithDefaults u cluster) backup) = None"
    and "FromBackup (Spec (WithDefaults u cluster)) = '''' \<or>
         (\<forall>t ns n. snd (MySQLBackupInstances_Get (clientset c) t ns n) = None)"
    and "\<forall>t ns s. createOK (Services_Create (kubeClientset c) t ns s)"
    and "\<forall>t ns s. createOK (StatefulSets_Create (kubeClientset c) t ns s)"
  shows "fst (AddCluster u c cluster t) = None \<and>
         filter isDelete (drop (length t) (snd (snd (AddCluster u c cluster t)))) = [] \<and>
         (\<exists>backup.
            map fst (filter isCreate (drop (length t) (snd (snd (AddCluster u c cluster t))))) =
              [ServicesCreate (Namespace (ObjectMeta cluster))
                 (fst (serviceForCluster u (WithDefaults u cluster) serviceTemplate)),
               ServicesCreate (Namespace (ObjectMeta cluster))
                 (fst (serviceForCluster u (WithDefaults u cluster) serviceReadTemplate)),
               StatefulSetsCreate (Namespace (ObjectMeta cluster))
                 (fst (statefulSetForCluster u (WithDefaults u cluster) backup))])"
proof -
  let ?cl = "WithDefaults u cluster"
  let ?ns = "Namespace (ObjectMeta cluster)"
  let ?s1 = "fst (serviceForCluster u ?cl serviceTemplate)"
  let ?s2 = "fst (serviceForCluster u ?cl serviceReadTemplate)"
  define e1 where "e1 = Services_Create (kubeClientset c) t ?ns ?s1"
  define t1 where "t1 = t @ [(ServicesCreate ?ns ?s1, e1)]"
  define e2 where "e2 = Services_Create (kubeClientset c) t1 ?ns ?s2"
  define t2 where "t2 = t1 @ [(ServicesCreate ?ns ?s2, e2)]"
  have rw: "createService u c ?cl serviceTemplate t = (None, t1)"
    using createService_ok [of u ?cl serviceTemplate c t] assms(1,5)
    by (simp add: e1_def t1_def)
  have ro: "createService u c ?cl serviceReadTemplate t1 = (None, t2)"
    using createService_ok [of u ?cl serviceReadTemplate c t1] assms(2,5)
    by (simp add: e2_def t2_def)
  obtain pre backup e3 where sts:
    "createStatefulSet u c ?cl t2 =
       (None, t2 @ pre @
          [(StatefulSetsCreate ?ns (fst (statefulSetForCluster u ?cl backup)), e3)])"
    and pre: "filter isCreate pre = []" "filter isDelete pre = []"
    using createStatefulSet_ok [OF assms(4,3,6), of t2] by auto
  have run: "AddCluster u c cluster t =
      (None, ?cl, t2 @ pre @
          [(StatefulSetsCreate ?ns (fst (statefulSetForCluster u ?cl backup)), e3)])"
    using rw ro sts by (simp add: AddCluster_def Let_def)
  have "map fst (filter isCreate (drop (length t) (snd (snd (AddCluster u c cluster t))))) =
      [ServicesCreate ?ns ?s1, ServicesCreate ?ns ?s2,
       StatefulSetsCreate ?ns (fst (statefulSetForCluster u ?cl backup))]"
    "filter isDelete (drop (length t) (snd (snd (AddCluster u c cluster t)))) = []"
    using pre by (simp_all add: run t1_def t2_def)
  then show ?thesis
    using run by auto
qed

text \<open>
  On the in-memory platform a first \<open>AddCluster\<close> of the sample resource creates the
  three objects; a second one, run on the trace of the first, gets \<open>AlreadyExists\<close>
  three times and returns no error.
\<close>

theorem AddCluster_idempotent_witness:
  "AddCluster examplePkg memoryOperator exampleCluster [] =
     (None, exampleDefaulted, exampleCreated) \<and>
   snd (serviceForCluster examplePkg (WithDefaults examplePkg exampleCluster)
          serviceTemplate) = None \<and>
   snd (serviceForCluster examplePkg (WithDefaults examplePkg exampleCluster)
          serviceReadTemplate) = None \<and>
   (\<forall>backup. snd (statefulSetForCluster examplePkg (WithDefaults examplePkg exampleCluster)
          backup) = None) \<and>
   FromBackup (Spec (WithDefaults examplePkg exampleCluster)) = '''' \<and>
   (\<forall>t ns s. createOK (Services_Create (kubeClientset memoryOperator) t ns s)) \<and>
   (\<forall>t ns s. createOK (StatefulSets_Create (kubeClientset memoryOperator) t ns s)) \<and>
   fst (AddCluster examplePkg memoryOperator exampleCluster exampleCreated) = None \<and>
   snd (snd (AddCluster examplePkg memoryOperator exampleCluster exampleCreated)) =
     exampleCreated @
     [(ServicesCreate ''prod'' exampleService, Some alreadyExists),
      (ServicesCreate ''prod'' exampleReadService, Some alreadyExists),
      (StatefulSetsCreate ''prod'' exampleStatefulSet, Some alreadyExists)]"
proof -
  have first: "AddCluster examplePkg memoryOperator exampleCluster [] =
     (None, exampleDefaulted, exampleCreated)"
    by (simp add: AddCluster_def operator_defs example_defs)
  have second: "snd (snd (AddCluster examplePkg memoryOperator exampleCluster exampleCreated)) =
     exampleCreated @
     [(ServicesCreate ''prod'' exampleService, Some alreadyExists),
      (ServicesCreate ''prod'' exampleReadService, Some alreadyExists),
      (StatefulSetsCreate ''prod'' exampleStatefulSet, Some alreadyExists)]"
    by (simp add: AddCluster_def operator_defs example_defs)
  have rw: "snd (serviceForCluster examplePkg (WithDefaults examplePkg exampleCluster)
          serviceTemplate) = None"
    by (simp add: serviceForCluster_def examplePkg_def)
  have ro: "snd (serviceForCluster examplePkg (WithDefaults examplePkg exampleCluster)
          serviceReadTemplate) = None"
    by (simp add: serviceForCluster_def examplePkg_def)
  have sts: "\<forall>backup. snd (statefulSetForCluster examplePkg
          (WithDefaults examplePkg exampleCluster) backup) = None"
    by (simp add: statefulSetForCluster_def examplePkg_def)
  have nb: "FromBackup (Spec (WithDefaults examplePkg exampleCluster)) = ''''"
    by (simp add: WithDefaults_def examplePkg_def exampleCluster_def)
  have sc: "\<forall>t ns s. createOK (Services_Create (kubeClientset memoryOperator) t ns s)"
    by (simp add: createOK_def memoryOperator_def memoryKube_def alreadyExists_def)
  have ssc: "\<forall>t ns s. createOK (StatefulSets_Create (kubeClientset memoryOperator) t ns s)"
    by (simp add: createOK_def memoryOperator_def memoryKube_def alreadyExists_def)
  from AddCluster_idempotent [OF rw ro sts disjI1 [OF nb] sc ssc, of exampleCreated]
  have "fst (AddCluster examplePkg memoryOperator exampleCluster exampleCreated) = None"
    by blast
  with first second rw ro sts nb sc ssc show ?thesis by blast
qed

subsection \<open>The read before an update of a service\<close>

text \<open>
  \<open>updateService\<close> never looks at the error of \<open>Get\<close>. When \<open>Get\<close> returns an object,
  with or without an error, the update is sent with the \<open>ResourceVersion\<close> of that
  object and \<open>updateService\<close> returns what \<open>Update\<close> returned; when the template does
  not render, it returns the render error and calls nothing.
\<close>

lemma updateService_render_error:
  assumes "serviceForCluster u cluster template = (service, Some e)"
  shows "updateService u cluster (k, ns) template t = (Return (Some e), t)"
  using assms by (simp add: updateService_def)

lemma updateService_ignores_Get_error:
  assumes "serviceForCluster u cluster template = (service, None)"
    and "Services_Get k t ns (Name (serviceMeta service)) = (Some old, getErr)"
  shows "let t1 = t @ [(ServicesGet ns (Name (serviceMeta service)), getErr)];
             newService = service\<lparr>serviceMeta :=
               (serviceMeta service)\<lparr>ResourceVersion := ResourceVersion (serviceMeta old)\<rparr>\<rparr>;
             err = Services_Update k t1 ns newService
         in updateService u cluster (k, ns) template t =
              (Return err, t1 @ [(ServicesUpdate ns newService, err)])"
  using assms by (simp add: updateService_def Let_def)

text \<open>When \<open>Get\<close> returns a \<open>nil\<close> pointer, \<open>updateService\<close> panics after the read.\<close>

lemma updateService_nil_Get:
  assumes "serviceForCluster u cluster template = (service, None)"
    and "Services_Get k t ns (Name (serviceMeta service)) = (None, getErr)"
  shows "updateService u cluster (k, ns) template t =
           (Panic ''invalid memory address or nil pointer dereference'',
            t @ [(ServicesGet ns (Name (serviceMeta service)), getErr)])"
  using assms by (simp add: updateService_def Let_def)

text \<open>
  C10. The specification has \<open>updateService\<close> go on to \<open>Update\<close> after every outcome of \<open>Get\<close>,
  a \<open>nil\<close> object included. On the in-memory platform with no service yet, \<open>Get\<close>
  returns \<open>nil\<close> with \<open>NotFound\<close>, as the fake clientset does: \<open>updateService\<close> panics
  on the read of \<open>ResourceVersion\<close>, no \<open>Update\<close> is sent and nothing is returned,
  and \<open>UpdateCluster\<close> panics with it.
\<close>

theorem updateService_nil_Get_panics:
  "Services_Get memoryKube [] ''prod'' ''db'' = (None, Some notFound) \<and>
   updateService examplePkg exampleDefaulted (memoryKube, ''prod'') serviceTemplate [] =
     (Panic ''invalid memory address or nil pointer dereference'',
      [(ServicesGet ''prod'' ''db'', Some notFound)]) \<and>
   filter isServicesUpdate
     (snd (updateService examplePkg exampleDefaulted (memoryKube, ''prod'') serviceTemplate [])) =
     [] \<and>
   UpdateCluster examplePkg memoryOperator exampleCluster [] =
     (Panic ''invalid memory address or nil pointer dereference'', exampleDefaulted,
      [(ServicesGet ''prod'' ''db'', Some notFound)])"
  by (simp add: UpdateCluster_def updateServices_def updateService_def operator_defs
      example_defs)

end
